theory Spec2Isabelle
  imports Complex_Main "HOL-Library.Word"
begin

section \<open>Raster loading and table building of \<^verbatim>\<open>raster.py\<close>\<close>

text \<open>
  The module is Python 3 (it imports \<^verbatim>\<open>configparser\<close> and calls \<^verbatim>\<open>print\<close> as a
  function). Functions that can raise return \<open>error + 'a\<close>, \<open>Inl\<close> carrying the exception.
  The libraries the module calls (the file system, \<^verbatim>\<open>configparser\<close>, GDAL's \<^verbatim>\<open>Open\<close>,
  OSR's PROJ.4 import) are the fields of an environment record; \<^verbatim>\<open>struct.unpack\<close>,
  \<^verbatim>\<open>numpy.reshape\<close>, \<^verbatim>\<open>linspace\<close>, \<^verbatim>\<open>meshgrid\<close> and the conversion of values to a
  band's storage type are written out.
\<close>

subsection \<open>Exceptions\<close>

datatype error =
    PyException string  \<comment> \<open>\<^verbatim>\<open>Exception(msg)\<close>\<close>
  | TypeError string
  | ParsingError        \<comment> \<open>\<^verbatim>\<open>configparser\<close> could open the sidecar but not parse it\<close>
  | ConfigError         \<comment> \<open>\<^verbatim>\<open>get\<close>, \<^verbatim>\<open>getint\<close> or \<^verbatim>\<open>getfloat\<close> raised: option missing or malformed\<close>
  | OSError             \<comment> \<open>\<^verbatim>\<open>open(bin_path, 'rb')\<close> failed\<close>
  | KeyError
  | StructError         \<comment> \<open>\<^verbatim>\<open>struct.error\<close>\<close>
  | ZeroDivisionError
  | ValueError
  | RuntimeError        \<comment> \<open>raised by GDAL and OSR, exceptions being enabled\<close>
  | IndexError
  | UnboundLocalError
  | NameError           \<comment> \<open>a global name that nothing binds\<close>
  | AttributeError

definition fetch :: "'a option \<Rightarrow> error \<Rightarrow> error + 'a" where
  "fetch v e = (case v of None \<Rightarrow> Inl e | Some x \<Rightarrow> Inr x)"

definition thenE :: "error + 'a \<Rightarrow> ('a \<Rightarrow> error + 'b) \<Rightarrow> error + 'b" where
  "thenE m f = (case m of Inl e \<Rightarrow> Inl e | Inr x \<Rightarrow> f x)"

subsection \<open>Numbers\<close>

text \<open>
  A Python number by its value: booleans, integers and finite floats are \<open>Num\<close> of the real
  they denote (Python compares \<^verbatim>\<open>int\<close>, \<^verbatim>\<open>bool\<close> and \<^verbatim>\<open>float\<close> by value), and the three
  special floats are constructors of their own. Comparisons with \<open>NaN\<close> are false.
\<close>

datatype pynum = Num real | PosInf | NegInf | NaN

fun py_le :: "pynum \<Rightarrow> pynum \<Rightarrow> bool" where
  "py_le NaN _ = False"
| "py_le _ NaN = False"
| "py_le NegInf _ = True"
| "py_le _ PosInf = True"
| "py_le (Num a) (Num b) = (a \<le> b)"
| "py_le PosInf _ = False"
| "py_le _ NegInf = False"

definition py_ge :: "pynum \<Rightarrow> pynum \<Rightarrow> bool" where
  "py_ge a b = py_le b a"

definition py_lt :: "pynum \<Rightarrow> pynum \<Rightarrow> bool" where
  "py_lt a b = (py_le a b \<and> a \<noteq> b)"

subsection \<open>Strings and paths\<close>

definition extsep :: char where
  "extsep = CHR ''.''"

text \<open>\<^verbatim>\<open>str.split(sep)\<close>: always at least one token.\<close>

fun split_sep :: "char \<Rightarrow> string \<Rightarrow> string list" where
  "split_sep c [] = [[]]"
| "split_sep c (x # xs) =
     (if x = c then [] # split_sep c xs
      else (case split_sep c xs of [] \<Rightarrow> [[x]] | t # ts \<Rightarrow> (x # t) # ts))"

text \<open>\<^verbatim>\<open>sep.join(tokens)\<close>.\<close>

fun join_sep :: "char \<Rightarrow> string list \<Rightarrow> string" where
  "join_sep c [] = []"
| "join_sep c [t] = t"
| "join_sep c (t # ts) = t @ c # join_sep c ts"

text \<open>\<^verbatim>\<open>tokens[-1] = s\<close>, on the non-empty list \<^verbatim>\<open>split\<close> returns.\<close>

definition set_last :: "string list \<Rightarrow> string \<Rightarrow> string list" where
  "set_last tokens s = tokens[length tokens - 1 := s]"

definition with_ext :: "string \<Rightarrow> string \<Rightarrow> string" where
  "with_ext filename ext = join_sep extsep (set_last (split_sep extsep filename) ext)"

text \<open>\<^verbatim>\<open>os.path.basename\<close>: what follows the last slash.\<close>

definition basename :: "string \<Rightarrow> string" where
  "basename fn = last (split_sep CHR ''/'' fn)"

text \<open>\<^verbatim>\<open>'%d' % n\<close> for a natural number.\<close>

fun str_nat :: "nat \<Rightarrow> string" where
  "str_nat n =
     (if n < 10 then [''0123456789'' ! n]
      else str_nat (n div 10) @ [''0123456789'' ! (n mod 10)])"

declare str_nat.simps [simp del]

subsection \<open>The lookup tables\<close>

datatype gdaltype = GDT_Byte | GDT_Int16 | GDT_Int32 | GDT_UInt16 | GDT_Float32 | GDT_Float64

definition DATATYPES :: "string \<Rightarrow> char option" where
  "DATATYPES = map_of
     [(''LOG1S'', CHR ''?''), (''INT1S'', CHR ''b''), (''INT2S'', CHR ''h''),
      (''INT4S'', CHR ''i''), (''INT8S'', CHR ''q''), (''INT1U'', CHR ''B''),
      (''INT2U'', CHR ''H''), (''FLT4S'', CHR ''f''), (''FLT8S'', CHR ''d'')]"

definition BYTEORDER :: "string \<Rightarrow> char option" where
  "BYTEORDER = map_of [(''little'', CHR ''<''), (''big'', CHR ''>'')]"

definition GDALTYPES :: "string \<Rightarrow> gdaltype option" where
  "GDALTYPES = map_of
     [(''LOG1S'', GDT_Byte), (''INT1S'', GDT_Byte),
      (''INT2S'', GDT_Int16), (''INT4S'', GDT_Int32),
      (''INT8S'', GDT_Int32), (''INT1U'', GDT_Byte),
      (''INT2U'', GDT_UInt16), (''FLT4S'', GDT_Float32),
      (''FLT8S'', GDT_Float64)]"

subsection \<open>\<^verbatim>\<open>struct.calcsize\<close> and \<^verbatim>\<open>struct.unpack\<close>\<close>

type_synonym byte = "8 word"

text \<open>The width of a format character under \<^verbatim>\<open><\<close> or \<^verbatim>\<open>>\<close> (standard sizes).\<close>

definition calcsize :: "char \<Rightarrow> nat option" where
  "calcsize = map_of
     [(CHR ''?'', 1), (CHR ''b'', 1), (CHR ''h'', 2), (CHR ''i'', 4), (CHR ''q'', 8),
      (CHR ''B'', 1), (CHR ''H'', 2), (CHR ''f'', 4), (CHR ''d'', 8)]"

text \<open>The unsigned value of a byte string, least significant byte first.\<close>

fun le_uint :: "byte list \<Rightarrow> int" where
  "le_uint [] = 0"
| "le_uint (b # bs) = uint b + 256 * le_uint bs"

definition to_signed :: "nat \<Rightarrow> int \<Rightarrow> int" where
  "to_signed nbytes u = (if u < 2 ^ (8 * nbytes - 1) then u else u - 2 ^ (8 * nbytes))"

text \<open>
  An IEEE 754 binary interchange value with \<open>ebits\<close> exponent bits and \<open>mbits\<close> fraction
  bits, from its bit pattern read as an unsigned integer.
\<close>

definition ieee_decode :: "nat \<Rightarrow> nat \<Rightarrow> int \<Rightarrow> pynum" where
  "ieee_decode ebits mbits raw =
     (let m = raw mod 2 ^ mbits;
          e = (raw div 2 ^ mbits) mod 2 ^ ebits;
          neg = (raw div 2 ^ (mbits + ebits)) mod 2 = 1;
          shift = 2 ^ (ebits - 1) - 1 + mbits;
          mag = (if e = 0 then real_of_int m * 2 / 2 ^ shift
                 else real_of_int (2 ^ mbits + m) * 2 ^ nat e / 2 ^ shift)
      in if e = 2 ^ ebits - 1
         then (if m \<noteq> 0 then NaN else if neg then NegInf else PosInf)
         else Num (if neg then - mag else mag))"

definition decode_value :: "char \<Rightarrow> char \<Rightarrow> byte list \<Rightarrow> pynum" where
  "decode_value bo dt bs =
     (let raw = le_uint (if bo = CHR ''<'' then bs else rev bs)
      in if dt = CHR ''?'' then Num (if raw \<noteq> 0 then 1 else 0)
         else if dt \<in> {CHR ''b'', CHR ''h'', CHR ''i'', CHR ''q''}
           then Num (real_of_int (to_signed (length bs) raw))
         else if dt = CHR ''f'' then ieee_decode 8 23 raw
         else if dt = CHR ''d'' then ieee_decode 11 52 raw
         else Num (real_of_int raw))"

text \<open>Rows of \<open>c\<close> consecutive elements, \<open>r\<close> of them.\<close>

definition rows_of :: "nat \<Rightarrow> nat \<Rightarrow> 'a list \<Rightarrow> 'a list list" where
  "rows_of r c xs = map (\<lambda>k. take c (drop (k * c) xs)) [0..<r]"

text \<open>
  \<^verbatim>\<open>fmt = '%s%d%s' % (bo, len(binstring)/struct.calcsize(dt), dt)\<close> followed by
  \<^verbatim>\<open>struct.unpack(fmt, binstring)\<close>: \<^verbatim>\<open>%d\<close> truncates the quotient, and \<^verbatim>\<open>unpack\<close>
  raises unless the buffer is exactly count times the width long.
\<close>

definition struct_unpack :: "char \<Rightarrow> char \<Rightarrow> byte list \<Rightarrow> error + pynum list" where
  "struct_unpack bo dt binstring =
     thenE (fetch (calcsize dt) StructError) (\<lambda>size.
       let count = length binstring div size
       in if count * size \<noteq> length binstring then Inl StructError
          else Inr (map (decode_value bo dt) (rows_of count size binstring)))"

subsection \<open>\<^verbatim>\<open>numpy.reshape\<close> to two dimensions\<close>

text \<open>One dimension may be \<open>-1\<close>, which numpy infers from the size.\<close>

definition np_reshape :: "'a list \<Rightarrow> int \<Rightarrow> int \<Rightarrow> error + 'a list list" where
  "np_reshape vs nrows ncols =
     (let n = int (length vs)
      in if nrows < -1 \<or> ncols < -1 \<or> (nrows = -1 \<and> ncols = -1) then Inl ValueError
         else if nrows = -1 then
           (if ncols \<noteq> 0 \<and> n mod ncols = 0
            then Inr (rows_of (nat (n div ncols)) (nat ncols) vs) else Inl ValueError)
         else if ncols = -1 then
           (if nrows \<noteq> 0 \<and> n mod nrows = 0
            then Inr (rows_of (nat nrows) (nat (n div nrows)) vs) else Inl ValueError)
         else if nrows * ncols = n then Inr (rows_of (nat nrows) (nat ncols) vs)
         else Inl ValueError)"

subsection \<open>Raster handles and the environment\<close>

record band =
  band_description :: string
  band_array :: "pynum list list"
  band_nodata :: "pynum option"
  band_type :: gdaltype

type_synonym geotransform = "real \<times> real \<times> real \<times> real \<times> real \<times> real"

record dataset =
  ds_description :: string
  RasterXSize :: nat
  RasterYSize :: nat
  GeoTransform :: geotransform
  Projection :: string
  ds_bands :: "band list"

text \<open>The sidecar as \<^verbatim>\<open>configparser\<close> reads it; \<open>None\<close> where the getter raises.\<close>

record config =
  cfg_datatype :: "string option"
  cfg_byteorder :: "string option"
  cfg_ncols :: "int option"
  cfg_nrows :: "int option"
  cfg_xmax :: "real option"
  cfg_xmin :: "real option"
  cfg_ymax :: "real option"
  cfg_ymin :: "real option"
  cfg_minvalue :: "pynum option"
  cfg_maxvalue :: "pynum option"
  cfg_nodatavalue :: "pynum option"
  cfg_projection :: "string option"

datatype ini_read = Unreadable | Malformed | Parsed config

datatype access = GA_ReadOnly | GA_Update

record env =
  ini_files :: "string \<Rightarrow> ini_read"            \<comment> \<open>\<^verbatim>\<open>config.read(path)\<close>\<close>
  bin_files :: "string \<Rightarrow> byte list option"    \<comment> \<open>\<^verbatim>\<open>open(path, 'rb').read()\<close>\<close>
  gdal_open :: "string \<Rightarrow> access \<Rightarrow> error + dataset"
  proj4_to_wkt :: "string \<Rightarrow> error + string"  \<comment> \<open>\<^verbatim>\<open>ImportFromProj4\<close> then \<^verbatim>\<open>ExportToWkt\<close>\<close>

subsection \<open>\<^verbatim>\<open>load_r_raster\<close>\<close>

text \<open>The list comprehension of lines 74-75.\<close>

definition filter_values :: "pynum \<Rightarrow> pynum \<Rightarrow> pynum \<Rightarrow> pynum list \<Rightarrow> pynum list" where
  "filter_values minval maxval nodatavalue values =
     map (\<lambda>x. if py_le x minval \<and> py_ge x maxval then x else nodatavalue) values"

text \<open>
  \<^verbatim>\<open>band.WriteArray(arr)\<close> stores every element in the band's type, converted as GDAL
  converts a buffer of doubles or integers: to an integer type by rounding half away from
  zero and clamping to the range of the type, \<open>NaN\<close> becoming 0; to \<^verbatim>\<open>Float32\<close> by
  rounding to the nearest single, a value beyond the largest single becoming an infinity;
  to \<^verbatim>\<open>Float64\<close> unchanged. (The numpy array holds the values as 64-bit integers or
  doubles; going through it changes no result: the only integers a double cannot hold come
  from \<^verbatim>\<open>INT8S\<close>, whose band is \<^verbatim>\<open>Int32\<close> and clamps them.)
\<close>

definition round_half_away :: "real \<Rightarrow> int" where
  "round_half_away x = (if 0 \<le> x then \<lfloor>x + 1 / 2\<rfloor> else \<lceil>x - 1 / 2\<rceil>)"

definition clamp_int :: "int \<Rightarrow> int \<Rightarrow> pynum \<Rightarrow> pynum" where
  "clamp_int lo hi v =
     (case v of
        Num x \<Rightarrow> Num (real_of_int (max lo (min hi (round_half_away x))))
      | PosInf \<Rightarrow> Num (real_of_int hi)
      | NegInf \<Rightarrow> Num (real_of_int lo)
      | NaN \<Rightarrow> Num 0)"

definition round_half_even :: "real \<Rightarrow> int" where
  "round_half_even y =
     (let f = \<lfloor>y\<rfloor>; d = y - real_of_int f
      in if d < 1 / 2 then f else if 1 / 2 < d then f + 1
         else if even f then f else f + 1)"

text \<open>
  The binary exponent of a single near \<open>x\<close>: -126 for the subnormal range, and one more
  for every power of two from \<open>2 powi (- 125)\<close> to \<open>2 powi 127\<close> that \<open>\<bar>x\<bar>\<close> reaches.
\<close>

definition float32_exponent :: "real \<Rightarrow> int" where
  "float32_exponent x =
     - 126 + int (length (filter (\<lambda>k. 2 powi k \<le> \<bar>x\<bar>) (map (\<lambda>i. int i - 125) [0..<253])))"

definition float32_max :: real where
  "float32_max = (2 ^ 24 - 1) * 2 ^ 104"

definition to_float32 :: "real \<Rightarrow> real" where
  "to_float32 x =
     (let q = 2 powi (float32_exponent x - 23)
      in real_of_int (round_half_even (x / q)) * q)"

definition gdal_store :: "gdaltype \<Rightarrow> pynum \<Rightarrow> pynum" where
  "gdal_store ty v =
     (case ty of
        GDT_Byte \<Rightarrow> clamp_int 0 255 v
      | GDT_Int16 \<Rightarrow> clamp_int (- 32768) 32767 v
      | GDT_Int32 \<Rightarrow> clamp_int (- 2147483648) 2147483647 v
      | GDT_UInt16 \<Rightarrow> clamp_int 0 65535 v
      | GDT_Float32 \<Rightarrow>
          (case v of
             Num x \<Rightarrow> if float32_max < x then PosInf
                      else if x < - float32_max then NegInf
                      else Num (to_float32 x)
           | _ \<Rightarrow> v)
      | GDT_Float64 \<Rightarrow> v)"

definition WriteArray :: "band \<Rightarrow> pynum list list \<Rightarrow> band" where
  "WriteArray b arr = b\<lparr>band_array := map (map (gdal_store (band_type b))) arr\<rparr>"

text \<open>
  \<^verbatim>\<open>driver.Create(path, ncols, nrows, 1, type)\<close> of the MEM driver, with the geotransform,
  the array of band 1, its nodata value and the projection set afterwards. GDAL refuses a
  dataset with a size below 1.
\<close>

definition mem_create :: "string \<Rightarrow> int \<Rightarrow> int \<Rightarrow> gdaltype \<Rightarrow> error + dataset" where
  "mem_create path ncols nrows ty =
     (if ncols < 1 \<or> nrows < 1 then Inl RuntimeError
      else Inr \<lparr>ds_description = path, RasterXSize = nat ncols, RasterYSize = nat nrows,
                GeoTransform = (0, 1, 0, 0, 0, 1), Projection = [],
                ds_bands = [\<lparr>band_description = [], band_array = replicate (nat nrows) (replicate (nat ncols) (Num 0)),
                             band_nodata = None, band_type = ty\<rparr>]\<rparr>)"

definition load_r_raster :: "env \<Rightarrow> string \<Rightarrow> error + dataset" where
  "load_r_raster world filename =
     (let ini_path = with_ext filename ''grd'';
          bin_path = with_ext filename ''gri''
      in case ini_files world ini_path of
           Unreadable \<Rightarrow> Inl (TypeError ''exceptions must derive from BaseException'')
         | Malformed \<Rightarrow> Inl ParsingError
         | Parsed config \<Rightarrow>
       thenE (fetch (bin_files world bin_path) OSError) (\<lambda>binstring.
       thenE (fetch (cfg_datatype config) ConfigError) (\<lambda>datatype.
       thenE (fetch (cfg_byteorder config) ConfigError) (\<lambda>byteorder.
       thenE (fetch (DATATYPES datatype) KeyError) (\<lambda>dt.
       thenE (fetch (BYTEORDER byteorder) KeyError) (\<lambda>bo.
       thenE (struct_unpack bo dt binstring) (\<lambda>values.
       thenE (fetch (cfg_ncols config) ConfigError) (\<lambda>ncols.
       thenE (fetch (cfg_nrows config) ConfigError) (\<lambda>nrows.
       thenE (fetch (cfg_xmax config) ConfigError) (\<lambda>xmax.
       thenE (fetch (cfg_xmin config) ConfigError) (\<lambda>xmin.
       thenE (fetch (cfg_ymax config) ConfigError) (\<lambda>ymax.
       thenE (fetch (cfg_ymin config) ConfigError) (\<lambda>ymin.
       if ncols = 0 \<or> nrows = 0 then Inl ZeroDivisionError else
       let xres = (xmax - xmin) / real_of_int ncols;
           yres = (ymax - ymin) / real_of_int nrows
       in
       thenE (fetch (cfg_minvalue config) ConfigError) (\<lambda>minval.
       thenE (fetch (cfg_maxvalue config) ConfigError) (\<lambda>maxval.
       thenE (fetch (cfg_nodatavalue config) ConfigError) (\<lambda>nodatavalue.
       let values = filter_values minval maxval nodatavalue values in
       thenE (np_reshape values nrows ncols) (\<lambda>arr.
       let raster_path = with_ext filename ''tif'' in
       thenE (fetch (GDALTYPES datatype) KeyError) (\<lambda>ty.
       thenE (mem_create raster_path ncols nrows ty) (\<lambda>gdal_ds.
       let gdal_ds = gdal_ds\<lparr>GeoTransform := (xmin, xres, 0, ymax, 0, yres)\<rparr>;
           gdal_ds = gdal_ds\<lparr>ds_bands :=
             map (\<lambda>b. (WriteArray b arr)\<lparr>band_nodata := Some nodatavalue\<rparr>) (ds_bands gdal_ds)\<rparr>
       in
       thenE (fetch (cfg_projection config) ConfigError) (\<lambda>proj4.
       thenE (proj4_to_wkt world proj4) (\<lambda>wkt.
       Inr (gdal_ds\<lparr>Projection := wkt\<rparr>))))))))))))))))))))))"

subsection \<open>\<^verbatim>\<open>load\<close>\<close>

text \<open>
  The result is paired with the lines printed. \<open>Inr None\<close> is the \<^verbatim>\<open>None\<close> that the
  function returns by falling off its end after the \<^verbatim>\<open>except\<close> clause.
\<close>

definition load :: "env \<Rightarrow> string \<Rightarrow> string option \<Rightarrow> (error + dataset option) \<times> string list" where
  "load world filename rastertype =
     (let rastertype =
            (if rastertype = None \<or> rastertype = Some [] then
               (let ext = last (split_sep extsep filename)
                in if ext \<in> set [''gri'', ''grd''] then Some ''r-raster''
                   else if ext = ''bil'' then Some ''bil''
                   else rastertype)
             else rastertype)
      in if rastertype = Some ''r-raster'' then
           (case load_r_raster world filename of
              Inl e \<Rightarrow> (Inl e, [])
            | Inr ds \<Rightarrow> (Inr (Some ds), []))
         else
           (case gdal_open world filename GA_ReadOnly of
              Inr ds \<Rightarrow> (Inr (Some ds), [])
            | Inl e \<Rightarrow> (Inr None, [''could not open raster file '' @ filename])))"

subsection \<open>\<^verbatim>\<open>make_table\<close>\<close>

text \<open>
  A value of a row: a band's cell value, or the one-dimensional array that indexing the
  two-dimensional coordinate mesh with one index gives.
\<close>

datatype cell = Value pynum | Coords "real list"

text \<open>
  The local variables of \<^verbatim>\<open>make_table\<close> that its loops read and write. \<open>None\<close> is a
  local not yet bound; reading it raises \<^verbatim>\<open>UnboundLocalError\<close>. In Python 3 the index of a
  list comprehension is not a local of the function, so \<^verbatim>\<open>i\<close> is bound only by the two
  \<^verbatim>\<open>for i, ... in enumerate(...)\<close> loops.
\<close>

record locals =
  var_instances :: "(string \<rightharpoonup> cell) list"
  var_name :: string
  var_band_name :: "string option"
  var_i :: "nat option"

text \<open>\<^verbatim>\<open>for i, v in enumerate(values): instances[i][band_name] = v\<close>, from index \<open>k\<close> on.\<close>

fun assign_values :: "locals \<Rightarrow> pynum list \<Rightarrow> nat \<Rightarrow> error + locals" where
  "assign_values st [] k = Inr st"
| "assign_values st (v # vs) k =
     (let st = st\<lparr>var_i := Some k\<rparr>
      in if length (var_instances st) \<le> k then Inl IndexError
         else thenE (fetch (var_band_name st) UnboundLocalError) (\<lambda>band_name.
           assign_values
             (st\<lparr>var_instances :=
                   (var_instances st)[k := (var_instances st ! k)(band_name \<mapsto> Value v)]\<rparr>)
             vs (Suc k)))"

text \<open>\<^verbatim>\<open>for b in bands\<close>.\<close>

fun band_loop :: "nat \<Rightarrow> locals \<Rightarrow> band list \<Rightarrow> error + locals" where
  "band_loop n_bands st [] = Inr st"
| "band_loop n_bands st (b # bs) =
     (let st = st\<lparr>var_name := band_description b\<rparr>
      in thenE
           (if var_name st = [] then
              (if n_bands > 1 then
                 thenE (fetch (var_i st) UnboundLocalError) (\<lambda>i.
                   Inr (st\<lparr>var_band_name := Some (var_name st @ ''_'' @ str_nat (i + 1))\<rparr>))
               else Inr (st\<lparr>var_band_name := Some (var_name st)\<rparr>))
            else Inr st)
           (\<lambda>st. thenE (assign_values st (concat (band_array b)) 0) (\<lambda>st.
              band_loop n_bands st bs)))"

text \<open>\<^verbatim>\<open>for r in rasters\<close>.\<close>

fun raster_loop :: "locals \<Rightarrow> dataset list \<Rightarrow> error + locals" where
  "raster_loop st [] = Inr st"
| "raster_loop st (r # rs) =
     (let fn = ds_description r;
          st = st\<lparr>var_name := hd (split_sep extsep (basename fn))\<rparr>;
          n_bands = length (ds_bands r)
      in thenE (band_loop n_bands st (ds_bands r)) (\<lambda>st. raster_loop st rs))"

text \<open>\<^verbatim>\<open>numpy.linspace(start, stop, num)\<close>, the end point included.\<close>

definition linspace :: "real \<Rightarrow> real \<Rightarrow> nat \<Rightarrow> real list" where
  "linspace start stop num =
     (if num = 0 then []
      else if num = 1 then [start]
      else map (\<lambda>k. start + real k * ((stop - start) / real (num - 1))) [0..<num])"

text \<open>\<^verbatim>\<open>numpy.meshgrid(x, y)\<close>: two arrays of \<open>length y\<close> rows and \<open>length x\<close> columns.\<close>

definition meshgrid :: "real list \<Rightarrow> real list \<Rightarrow> real list list \<times> real list list" where
  "meshgrid xs ys = (replicate (length ys) xs, map (\<lambda>y. replicate (length xs) y) ys)"

text \<open>
  \<^verbatim>\<open>for i, inst in enumerate(instances): inst['x'] = x_mesh[i]; inst['y'] = y_mesh[i]\<close>,
  from index \<open>k\<close> on. The index selects a row of the mesh and is out of range from the
  number of rows on.
\<close>

fun add_xy :: "(string \<rightharpoonup> cell) list \<Rightarrow> real list list \<Rightarrow> real list list \<Rightarrow> nat
    \<Rightarrow> error + (string \<rightharpoonup> cell) list" where
  "add_xy [] x_mesh y_mesh k = Inr []"
| "add_xy (inst # rest) x_mesh y_mesh k =
     (if length x_mesh \<le> k \<or> length y_mesh \<le> k then Inl IndexError
      else thenE (add_xy rest x_mesh y_mesh (Suc k)) (\<lambda>tail_rows.
        Inr (inst(''x'' \<mapsto> Coords (x_mesh ! k), ''y'' \<mapsto> Coords (y_mesh ! k)) # tail_rows)))"

definition make_table :: "dataset list \<Rightarrow> error + (string \<rightharpoonup> cell) list" where
  "make_table rasters =
     (case rasters of
        [] \<Rightarrow> Inl IndexError
      | r0 # _ \<Rightarrow>
          (case GeoTransform r0 of (topleft_x, xres, _, topleft_y, _, yres) \<Rightarrow>
             let cols = RasterXSize r0;
                 rows = RasterYSize r0;
                 instances = replicate (cols * rows) Map.empty
             in thenE (raster_loop \<lparr>var_instances = instances, var_name = [],
                                    var_band_name = None, var_i = None\<rparr> rasters) (\<lambda>st.
                  let x_start = topleft_x + xres / 2;
                      x_end = x_start + xres * real cols;
                      y_start = topleft_y - yres / 2;
                      y_end = y_start - yres * real rows;
                      x_coords = linspace x_start x_end cols;
                      y_coords = linspace y_start y_end rows;
                      (x_mesh, y_mesh) = meshgrid x_coords y_coords
                  in add_xy (var_instances st) x_mesh y_mesh 0)))"

subsection \<open>\<^verbatim>\<open>all_equal\<close> and \<^verbatim>\<open>rasters_to_table\<close>\<close>

definition all_equal :: "'a list \<Rightarrow> error + bool" where
  "all_equal sequence =
     (case sequence of
        [] \<Rightarrow> Inl IndexError
      | x # _ \<Rightarrow> Inr (count_list sequence x = length sequence))"

text \<open>\<^verbatim>\<open>[load(f) for f in filenames]\<close>: the first exception ends the comprehension.\<close>

fun load_list :: "env \<Rightarrow> string list \<Rightarrow> (error + dataset option list) \<times> string list" where
  "load_list world [] = (Inr [], [])"
| "load_list world (f # fs) =
     (case load world f None of
        (Inl e, out) \<Rightarrow> (Inl e, out)
      | (Inr r, out) \<Rightarrow>
          (case load_list world fs of
             (res, out') \<Rightarrow> (thenE res (\<lambda>rs. Inr (r # rs)), out @ out')))"

text \<open>
  \<^verbatim>\<open>[(r.GetGeoTransform(), r.GetProjection()) for r in rasters]\<close>: a \<^verbatim>\<open>None\<close> among the
  rasters has neither method.
\<close>

fun get_transforms :: "dataset option list \<Rightarrow> error + (geotransform \<times> string) list" where
  "get_transforms [] = Inr []"
| "get_transforms (None # rs) = Inl AttributeError"
| "get_transforms (Some r # rs) =
     thenE (get_transforms rs) (\<lambda>ts. Inr ((GeoTransform r, Projection r) # ts))"

text \<open>
  The module neither defines nor imports \<^verbatim>\<open>resample_and_reproject\<close>: looking the name
  up on line 167 raises \<^verbatim>\<open>NameError\<close>. Unpacking the \<^verbatim>\<open>zip\<close> of no pairs into two names
  raises \<^verbatim>\<open>ValueError\<close>.
\<close>

definition rasters_to_table ::
    "env \<Rightarrow> string list \<Rightarrow> (error + (string \<rightharpoonup> cell) list) \<times> string list" where
  "rasters_to_table world filenames =
     (case load_list world filenames of
        (Inl e, out) \<Rightarrow> (Inl e, out)
      | (Inr rasters, out) \<Rightarrow>
          (thenE (get_transforms rasters) (\<lambda>pairs.
             if pairs = [] then Inl ValueError
             else
               let geotransforms = map fst pairs;
                   projections = map snd pairs;
                   rasters = map the rasters
               in thenE (all_equal geotransforms) (\<lambda>same_gt.
                  thenE (if \<not> same_gt then Inr True
                         else thenE (all_equal projections) (\<lambda>same_proj. Inr (\<not> same_proj)))
                    (\<lambda>mismatch.
                  thenE (if mismatch then Inl NameError else Inr rasters)
                    make_table))),
           out))"

subsection \<open>Concrete inputs\<close>

text \<open>
  An unsigned 8-bit raster of two rows and two columns, a signed big-endian 16-bit raster
  of one row and two columns, and a signed 8-bit raster of one row and two columns whose
  nodata value is -128; \<^verbatim>\<open>short.gri\<close> holds three bytes for a grid of four
  cells. No other sidecar can be read.
\<close>

definition example_config :: config where
  "example_config =
     \<lparr>cfg_datatype = Some ''INT1U'', cfg_byteorder = Some ''little'',
      cfg_ncols = Some 2, cfg_nrows = Some 2, cfg_xmax = Some 2, cfg_xmin = Some 0,
      cfg_ymax = Some 10, cfg_ymin = Some 8, cfg_minvalue = Some (Num 0),
      cfg_maxvalue = Some (Num 10), cfg_nodatavalue = Some (Num 255),
      cfg_projection = Some ''+proj=longlat''\<rparr>"

definition signed_config :: config where
  "signed_config =
     \<lparr>cfg_datatype = Some ''INT2S'', cfg_byteorder = Some ''big'',
      cfg_ncols = Some 2, cfg_nrows = Some 1, cfg_xmax = Some 2, cfg_xmin = Some 0,
      cfg_ymax = Some 1, cfg_ymin = Some 0, cfg_minvalue = Some (Num (- 1000)),
      cfg_maxvalue = Some (Num 1000), cfg_nodatavalue = Some (Num (- 32768)),
      cfg_projection = Some ''+proj=longlat''\<rparr>"

definition int1s_config :: config where
  "int1s_config =
     \<lparr>cfg_datatype = Some ''INT1S'', cfg_byteorder = Some ''little'',
      cfg_ncols = Some 2, cfg_nrows = Some 1, cfg_xmax = Some 2, cfg_xmin = Some 0,
      cfg_ymax = Some 1, cfg_ymin = Some 0, cfg_minvalue = Some (Num (- 100)),
      cfg_maxvalue = Some (Num 100), cfg_nodatavalue = Some (Num (- 128)),
      cfg_projection = Some ''+proj=longlat''\<rparr>"

text \<open>
  Rasters as the generic open returns them, all with origin \<open>(0, 10)\<close>, pixel width 1 and
  pixel height -1 unless said otherwise: a grid of two rows and two columns, a grid of two
  rows and one column, three single cells (one with a band description, one on a grid
  shifted by 5), and a single cell with two bands.
\<close>

definition plain_band :: "string \<Rightarrow> pynum list list \<Rightarrow> band" where
  "plain_band description arr =
     \<lparr>band_description = description, band_array = arr, band_nodata = None,
      band_type = GDT_Byte\<rparr>"

definition grid22 :: dataset where
  "grid22 =
     \<lparr>ds_description = ''data/bio1.tif'', RasterXSize = 2, RasterYSize = 2,
      GeoTransform = (0, 1, 0, 10, 0, - 1), Projection = ''WGS84'',
      ds_bands = [plain_band [] [[Num 1, Num 2], [Num 3, Num 4]]]\<rparr>"

definition column21 :: dataset where
  "column21 =
     \<lparr>ds_description = ''data/bio1.tif'', RasterXSize = 1, RasterYSize = 2,
      GeoTransform = (0, 1, 0, 10, 0, - 1), Projection = ''WGS84'',
      ds_bands = [plain_band [] [[Num 1], [Num 2]]]\<rparr>"

definition cell_plain :: dataset where
  "cell_plain =
     \<lparr>ds_description = ''data/bio1.tif'', RasterXSize = 1, RasterYSize = 1,
      GeoTransform = (0, 1, 0, 10, 0, - 1), Projection = ''WGS84'',
      ds_bands = [plain_band [] [[Num 7]]]\<rparr>"

definition cell_named :: dataset where
  "cell_named =
     \<lparr>ds_description = ''data/bio2.tif'', RasterXSize = 1, RasterYSize = 1,
      GeoTransform = (0, 1, 0, 10, 0, - 1), Projection = ''WGS84'',
      ds_bands = [plain_band ''temperature'' [[Num 8]]]\<rparr>"

definition cell_two_bands :: dataset where
  "cell_two_bands =
     \<lparr>ds_description = ''data/bio3.tif'', RasterXSize = 1, RasterYSize = 1,
      GeoTransform = (0, 1, 0, 10, 0, - 1), Projection = ''WGS84'',
      ds_bands = [plain_band [] [[Num 5]], plain_band [] [[Num 6]]]\<rparr>"

definition cell_shifted :: dataset where
  "cell_shifted =
     \<lparr>ds_description = ''data/bio4.tif'', RasterXSize = 1, RasterYSize = 1,
      GeoTransform = (5, 1, 0, 10, 0, - 1), Projection = ''WGS84'',
      ds_bands = [plain_band [] [[Num 9]]]\<rparr>"

text \<open>
  The generic open succeeds, read-only, on \<^verbatim>\<open>bio1.tif\<close> and \<^verbatim>\<open>bio4.tif\<close> and fails on
  every other file.
\<close>

definition example_world :: env where
  "example_world =
     \<lparr>ini_files = (\<lambda>p. if p = ''a.grd'' then Parsed example_config
                        else if p = ''s.grd'' then Parsed signed_config
                        else if p = ''short.grd'' then Parsed example_config
                        else if p = ''b.grd'' then Parsed int1s_config
                        else Unreadable),
      bin_files = (\<lambda>p. if p = ''a.gri'' then Some [1, 2, 3, 4]
                        else if p = ''s.gri'' then Some [255, 254, 1, 44]
                        else if p = ''short.gri'' then Some [1, 2, 3]
                        else if p = ''b.gri'' then Some [5, 251]
                        else None),
      gdal_open = (\<lambda>p a. if a = GA_ReadOnly \<and> p = ''bio1.tif'' then Inr cell_plain
                          else if a = GA_ReadOnly \<and> p = ''bio4.tif'' then Inr cell_shifted
                          else Inl RuntimeError),
      proj4_to_wkt = (\<lambda>s. Inr (''WKT:'' @ s))\<rparr>"

section \<open>Properties\<close>

subsection \<open>Auxiliary facts\<close>

lemma thenE_Inr: "thenE m f = Inr y \<longleftrightarrow> (\<exists>x. m = Inr x \<and> f x = Inr y)"
  by (cases m) (simp_all add: thenE_def)

lemma fetch_Inr: "fetch v e = Inr x \<longleftrightarrow> v = Some x"
  by (cases v) (simp_all add: fetch_def)

lemma py_range_unsat: "py_lt a b \<Longrightarrow> \<not> (py_le x a \<and> py_ge x b)"
  by (cases a; cases b; cases x) (auto simp: py_lt_def py_ge_def)

lemma filter_values_inverted:
  "py_lt minval maxval \<Longrightarrow>
   filter_values minval maxval nodatavalue vals = replicate (length vals) nodatavalue"
  by (induction vals) (auto simp: filter_values_def dest: py_range_unsat)

lemma length_filter_values [simp]:
  "length (filter_values minval maxval nodatavalue vals) = length vals"
  by (simp add: filter_values_def)

lemma length_rows_of [simp]: "length (rows_of r c xs) = r"
  by (simp add: rows_of_def)

lemma rows_of_replicate: "rows_of r c (replicate (r * c) x) = replicate r (replicate c x)"
proof -
  have row: "take c (drop (k * c) (replicate (r * c) x)) = replicate c x" if "k < r" for k
  proof -
    from that have "(k + 1) * c \<le> r * c" by (intro mult_le_mono1) simp
    then have "c \<le> r * c - k * c" by simp
    then show ?thesis by (simp add: min_def)
  qed
  have "map (\<lambda>k. take c (drop (k * c) (replicate (r * c) x))) [0..<r]
        = map (\<lambda>k. replicate c x) [0..<r]"
  proof (rule map_cong [OF refl])
    fix k assume "k \<in> set [0..<r]"
    then have "k < r" by simp
    then show "take c (drop (k * c) (replicate (r * c) x)) = replicate c x" by (rule row)
  qed
  then show ?thesis
    by (simp add: rows_of_def map_replicate_const)
qed

lemma rows_of_row_length:
  assumes len: "length xs = r * c" and mem: "row \<in> set (rows_of r c xs)"
  shows "length row = c"
proof -
  from mem obtain k where k: "k < r" and row: "row = take c (drop (k * c) xs)"
    by (auto simp: rows_of_def)
  from k have "(k + 1) * c \<le> r * c" by (intro mult_le_mono1) simp
  then have "c \<le> r * c - k * c" by simp
  with len row show ?thesis by simp
qed

lemma calcsize_pos: "calcsize dt = Some w \<Longrightarrow> 0 < w"
  by (auto simp: calcsize_def split: if_splits)

lemma DATATYPES_calcsize: "DATATYPES datatype = Some dt \<Longrightarrow> \<exists>w. calcsize dt = Some w"
  by (auto simp: DATATYPES_def calcsize_def split: if_splits)

lemma DATATYPES_GDALTYPES:
  "DATATYPES datatype = Some dt \<Longrightarrow> \<exists>ty. GDALTYPES datatype = Some ty"
  by (auto simp: DATATYPES_def GDALTYPES_def split: if_splits)

lemma struct_unpack_Inr:
  "struct_unpack bo dt binstring = Inr vals \<Longrightarrow> calcsize dt = Some w \<Longrightarrow>
   length binstring = length vals * w"
  by (auto simp: struct_unpack_def thenE_def fetch_def Let_def split: if_splits)

lemma struct_unpack_exact:
  assumes "calcsize dt = Some w" and "length binstring = n * w"
  shows "\<exists>vals. struct_unpack bo dt binstring = Inr vals \<and> length vals = n"
proof -
  from assms(1) have "0 < w" by (rule calcsize_pos)
  with assms(2) have "length binstring div w = n" by simp
  with assms show ?thesis
    by (simp add: struct_unpack_def thenE_def fetch_def)
qed

lemma np_reshape_pos:
  "np_reshape vs nrows ncols = Inr arr \<Longrightarrow> 0 < nrows \<Longrightarrow> 0 < ncols \<Longrightarrow>
   int (length vs) = nrows * ncols \<and> arr = rows_of (nat nrows) (nat ncols) vs"
  by (auto simp: np_reshape_def Let_def split: if_splits)

lemma np_reshape_exact:
  assumes "0 < nrows" "0 < ncols" "int (length vs) = nrows * ncols"
  shows "np_reshape vs nrows ncols = Inr (rows_of (nat nrows) (nat ncols) vs)"
  using assms by (simp add: np_reshape_def)

lemma mem_create_Inr:
  "mem_create path ncols nrows ty = Inr d \<longleftrightarrow>
     0 < ncols \<and> 0 < nrows \<and>
     d = \<lparr>ds_description = path, RasterXSize = nat ncols, RasterYSize = nat nrows,
          GeoTransform = (0, 1, 0, 0, 0, 1), Projection = [],
          ds_bands = [\<lparr>band_description = [],
                       band_array = replicate (nat nrows) (replicate (nat ncols) (Num 0)),
                       band_nodata = None, band_type = ty\<rparr>]\<rparr>"
  by (auto simp: mem_create_def)

text \<open>Everything that holds when \<open>load_r_raster\<close> returns a raster.\<close>

lemma load_r_raster_Inr:
  assumes "load_r_raster world filename = Inr ds"
  shows "\<exists>config binstring datatype byteorder dt bo vals ncols nrows xmax xmin ymax ymin
            minval maxval nodatavalue arr ty proj4 wkt.
    ini_files world (with_ext filename ''grd'') = Parsed config \<and>
    bin_files world (with_ext filename ''gri'') = Some binstring \<and>
    cfg_datatype config = Some datatype \<and> cfg_byteorder config = Some byteorder \<and>
    DATATYPES datatype = Some dt \<and> BYTEORDER byteorder = Some bo \<and>
    struct_unpack bo dt binstring = Inr vals \<and>
    cfg_ncols config = Some ncols \<and> cfg_nrows config = Some nrows \<and>
    cfg_xmax config = Some xmax \<and> cfg_xmin config = Some xmin \<and>
    cfg_ymax config = Some ymax \<and> cfg_ymin config = Some ymin \<and>
    cfg_minvalue config = Some minval \<and> cfg_maxvalue config = Some maxval \<and>
    cfg_nodatavalue config = Some nodatavalue \<and>
    np_reshape (filter_values minval maxval nodatavalue vals) nrows ncols = Inr arr \<and>
    GDALTYPES datatype = Some ty \<and> 0 < ncols \<and> 0 < nrows \<and>
    cfg_projection config = Some proj4 \<and> proj4_to_wkt world proj4 = Inr wkt \<and>
    ds = \<lparr>ds_description = with_ext filename ''tif'', RasterXSize = nat ncols,
           RasterYSize = nat nrows,
           GeoTransform = (xmin, (xmax - xmin) / real_of_int ncols, 0, ymax, 0,
                           (ymax - ymin) / real_of_int nrows),
           Projection = wkt,
           ds_bands = [\<lparr>band_description = [],
                        band_array = map (map (gdal_store ty)) arr,
                        band_nodata = Some nodatavalue, band_type = ty\<rparr>]\<rparr>"
proof (cases "ini_files world (with_ext filename ''grd'')")
  case Unreadable
  with assms show ?thesis by (simp add: load_r_raster_def)
next
  case Malformed
  with assms show ?thesis by (simp add: load_r_raster_def)
next
  case (Parsed config)
  with assms show ?thesis
    by (simp add: load_r_raster_def thenE_Inr fetch_Inr mem_create_Inr WriteArray_def
          split: if_splits) blast
qed

text \<open>Conditions under which \<open>load_r_raster\<close> returns a raster.\<close>

lemma load_r_raster_succeeds:
  assumes "ini_files world (with_ext filename ''grd'') = Parsed config"
    and "bin_files world (with_ext filename ''gri'') = Some binstring"
    and "cfg_datatype config = Some datatype" and "DATATYPES datatype = Some dt"
    and "cfg_byteorder config = Some byteorder" and "BYTEORDER byteorder = Some bo"
    and "calcsize dt = Some w"
    and "cfg_ncols config = Some ncols" and "cfg_nrows config = Some nrows"
    and "0 < ncols" and "0 < nrows"
    and "length binstring = nat (nrows * ncols) * w"
    and "cfg_xmax config = Some xmax" and "cfg_xmin config = Some xmin"
    and "cfg_ymax config = Some ymax" and "cfg_ymin config = Some ymin"
    and "cfg_minvalue config = Some minval" and "cfg_maxvalue config = Some maxval"
    and "cfg_nodatavalue config = Some nodatavalue"
    and "cfg_projection config = Some proj4" and "proj4_to_wkt world proj4 = Inr wkt"
  shows "\<exists>ds. load_r_raster world filename = Inr ds"
proof -
  from struct_unpack_exact [OF assms(7) assms(12)]
  obtain vals where vals: "struct_unpack bo dt binstring = Inr vals"
    and len: "length vals = nat (nrows * ncols)" by blast
  from assms(10,11) have "0 < nrows * ncols" by simp
  with len have "int (length (filter_values minval maxval nodatavalue vals)) = nrows * ncols"
    by simp
  from np_reshape_exact [OF assms(11) assms(10) this]
  have arr: "np_reshape (filter_values minval maxval nodatavalue vals) nrows ncols
      = Inr (rows_of (nat nrows) (nat ncols) (filter_values minval maxval nodatavalue vals))" .
  from DATATYPES_GDALTYPES [OF assms(4)] obtain ty where ty: "GDALTYPES datatype = Some ty" ..
  from assms(10,11) have create: "\<not> (ncols < 1 \<or> nrows < 1)" "ncols \<noteq> 0" "nrows \<noteq> 0"
    by simp_all
  show ?thesis
    by (simp add: load_r_raster_def assms vals arr ty thenE_def fetch_def mem_create_def create)
qed

subsection \<open>Evaluating the concrete inputs\<close>

lemmas eval_defs = load_r_raster_def with_ext_def extsep_def set_last_def thenE_def fetch_def
  DATATYPES_def BYTEORDER_def GDALTYPES_def struct_unpack_def calcsize_def rows_of_def
  decode_value_def to_signed_def filter_values_def py_ge_def np_reshape_def mem_create_def
  WriteArray_def gdal_store_def clamp_int_def round_half_away_def upt_rec

lemma example_paths:
  "with_ext ''a.grd'' ''grd'' = ''a.grd''" "with_ext ''a.grd'' ''gri'' = ''a.gri''"
  "with_ext ''short.gri'' ''grd'' = ''short.grd''"
  "with_ext ''short.gri'' ''gri'' = ''short.gri''"
  by (simp_all add: with_ext_def extsep_def set_last_def)

lemma example_load:
  "load_r_raster example_world ''a.grd'' =
     Inr \<lparr>ds_description = ''a.tif'', RasterXSize = 2, RasterYSize = 2,
          GeoTransform = (0, 1, 0, 10, 0, 1), Projection = ''WKT:+proj=longlat'',
          ds_bands = [\<lparr>band_description = [],
                       band_array = [[Num 255, Num 255], [Num 255, Num 255]],
                       band_nodata = Some (Num 255), band_type = GDT_Byte\<rparr>]\<rparr>"
  by (simp add: eval_defs example_world_def example_config_def)

subsection \<open>The validity filter\<close>

text \<open>
  C10. When the sidecar declares \<open>minvalue < maxvalue\<close>, no value passes the test
  \<open>x \<le> minvalue \<and> x \<ge> maxvalue\<close> of the filter, and every cell of the raster that
  \<open>load_r_raster\<close> returns holds one value, whatever the payload holds: the nodata value
  as the band's type \<^verbatim>\<open>GDALTYPES[datatype]\<close> stores it. Band 1 is \<open>RasterYSize\<close> rows of
  \<open>RasterXSize\<close> copies of it, and they are copies of the nodata value itself whenever
  storing leaves the nodata value unchanged.
\<close>

theorem inverted_filter_all_nodata:
  assumes "ini_files world (with_ext filename ''grd'') = Parsed config"
    and "cfg_minvalue config = Some minval" and "cfg_maxvalue config = Some maxval"
    and "cfg_nodatavalue config = Some nodatavalue"
    and "py_lt minval maxval"
  shows "(\<forall>x. \<not> (py_le x minval \<and> py_ge x maxval)) \<and>
         (\<forall>ds. load_r_raster world filename = Inr ds \<longrightarrow>
            (\<exists>b tag. ds_bands ds = [b] \<and>
               cfg_datatype config = Some tag \<and> GDALTYPES tag = Some (band_type b) \<and>
               band_array b = replicate (RasterYSize ds)
                 (replicate (RasterXSize ds) (gdal_store (band_type b) nodatavalue)) \<and>
               (gdal_store (band_type b) nodatavalue = nodatavalue \<longrightarrow>
                  band_array b = replicate (RasterYSize ds)
                    (replicate (RasterXSize ds) nodatavalue))))"
proof -
  have unsat: "\<not> (py_le x minval \<and> py_ge x maxval)" for x
    using assms(5) by (rule py_range_unsat)
  have cells: "\<exists>b tag. ds_bands ds = [b] \<and>
      cfg_datatype config = Some tag \<and> GDALTYPES tag = Some (band_type b) \<and>
      band_array b = replicate (RasterYSize ds)
        (replicate (RasterXSize ds) (gdal_store (band_type b) nodatavalue)) \<and>
      (gdal_store (band_type b) nodatavalue = nodatavalue \<longrightarrow>
         band_array b = replicate (RasterYSize ds) (replicate (RasterXSize ds) nodatavalue))"
    if ok: "load_r_raster world filename = Inr ds" for ds
  proof -
    from load_r_raster_Inr [OF ok] assms(1-4)
    obtain tag vals ncols nrows xmax xmin ymax ymin arr ty wkt where
      pos: "0 < ncols" "0 < nrows" and
      tag: "cfg_datatype config = Some tag" "GDALTYPES tag = Some ty" and
      arr: "np_reshape (filter_values minval maxval nodatavalue vals) nrows ncols = Inr arr" and
      ds: "ds = \<lparr>ds_description = with_ext filename ''tif'', RasterXSize = nat ncols,
             RasterYSize = nat nrows,
             GeoTransform = (xmin, (xmax - xmin) / real_of_int ncols, 0, ymax, 0,
                             (ymax - ymin) / real_of_int nrows),
             Projection = wkt,
             ds_bands = [\<lparr>band_description = [],
                          band_array = map (map (gdal_store ty)) arr,
                          band_nodata = Some nodatavalue, band_type = ty\<rparr>]\<rparr>"
      by auto
    from np_reshape_pos [OF arr pos(2) pos(1)]
    have len: "int (length vals) = nrows * ncols"
      and rows: "arr = rows_of (nat nrows) (nat ncols)
                         (filter_values minval maxval nodatavalue vals)"
      by simp_all
    from len pos have "length vals = nat nrows * nat ncols"
      by (simp add: nat_mult_distrib [symmetric] nat_eq_iff)
    with rows have "arr = replicate (nat nrows) (replicate (nat ncols) nodatavalue)"
      by (simp add: filter_values_inverted [OF assms(5)] rows_of_replicate)
    then have "map (map (gdal_store ty)) arr
        = replicate (nat nrows) (replicate (nat ncols) (gdal_store ty nodatavalue))"
      by simp
    with ds tag show ?thesis by simp
  qed
  from unsat cells show ?thesis by blast
qed

theorem inverted_filter_all_nodata_witness:
  "py_lt (Num 0) (Num 10) \<and>
   struct_unpack CHR ''<'' CHR ''B'' [1, 2, 3, 4] = Inr [Num 1, Num 2, Num 3, Num 4] \<and>
   gdal_store GDT_Byte (Num 255) = Num 255 \<and>
   (\<exists>ds. load_r_raster example_world ''a.grd'' = Inr ds \<and>
         map band_array (ds_bands ds) = [[[Num 255, Num 255], [Num 255, Num 255]]])"
proof -
  have parsed: "ini_files example_world (with_ext ''a.grd'' ''grd'') = Parsed example_config"
    by (simp add: example_world_def example_paths)
  have fields: "cfg_minvalue example_config = Some (Num 0)"
    "cfg_maxvalue example_config = Some (Num 10)"
    "cfg_nodatavalue example_config = Some (Num 255)"
    by (simp_all add: example_config_def)
  have lt: "py_lt (Num 0) (Num 10)" by (simp add: py_lt_def)
  have stored: "gdal_store GDT_Byte (Num 255) = Num 255"
    by (simp add: gdal_store_def clamp_int_def round_half_away_def)
  obtain ds where ds: "load_r_raster example_world ''a.grd'' = Inr ds"
    and size: "RasterYSize ds = 2" "RasterXSize ds = 2"
    using example_load by simp
  from inverted_filter_all_nodata [OF parsed fields lt] ds
  obtain b tag where b: "ds_bands ds = [b]"
    and tag: "cfg_datatype example_config = Some tag" "GDALTYPES tag = Some (band_type b)"
    and unchanged: "gdal_store (band_type b) (Num 255) = Num 255 \<longrightarrow>
      band_array b = replicate (RasterYSize ds) (replicate (RasterXSize ds) (Num 255))"
    by blast
  from tag(1) have "tag = ''INT1U''" by (simp add: example_config_def)
  with tag(2) have "band_type b = GDT_Byte" by (simp add: GDALTYPES_def)
  with unchanged stored
  have "band_array b = replicate (RasterYSize ds) (replicate (RasterXSize ds) (Num 255))"
    by simp
  with b size have cells:
    "map band_array (ds_bands ds) = [[[Num 255, Num 255], [Num 255, Num 255]]]"
    by (simp add: numeral_2_eq_2)
  have unpacked: "struct_unpack CHR ''<'' CHR ''B'' [1, 2, 3, 4]
      = Inr [Num 1, Num 2, Num 3, Num 4]"
    by (simp add: eval_defs)
  show ?thesis
    by (intro conjI exI [of _ ds]) (rule lt unpacked stored ds cells)+
qed

text \<open>
  The sidecar \<^verbatim>\<open>b.grd\<close> declares \<^verbatim>\<open>INT1S\<close>, the range from -100 to 100 and the nodata
  value -128. The band is of type \<^verbatim>\<open>Byte\<close>, which stores -128 as 0: the cells of the
  loaded raster hold 0 and not the nodata value, which the band still reports as -128.
\<close>

theorem cells_differ_from_nodata_counterexample:
  "cfg_minvalue int1s_config = Some (Num (- 100)) \<and>
   cfg_maxvalue int1s_config = Some (Num 100) \<and>
   cfg_nodatavalue int1s_config = Some (Num (- 128)) \<and>
   py_lt (Num (- 100)) (Num 100) \<and>
   map_sum id (map band_array \<circ> ds_bands) (load_r_raster example_world ''b.grd'')
     = Inr [[[Num 0, Num 0]]] \<and>
   map_sum id (map band_nodata \<circ> ds_bands) (load_r_raster example_world ''b.grd'')
     = Inr [Some (Num (- 128))] \<and>
   Num 0 \<noteq> Num (- 128)"
  by (simp add: eval_defs example_world_def int1s_config_def py_lt_def)

text \<open>
  C1. The specification asks that a value inside \<open>[minvalue, maxvalue]\<close> is stored unchanged.
  The payload of \<^verbatim>\<open>a.gri\<close> unpacks to 1, 2, 3, 4, all inside the declared range from 0 to
  10, and the raster that \<open>load_r_raster\<close> returns holds the nodata value 255 in all four
  cells.
\<close>

theorem in_range_values_replaced:
  "bin_files example_world ''a.gri'' = Some [1, 2, 3, 4] \<and>
   struct_unpack CHR ''<'' CHR ''B'' [1, 2, 3, 4] = Inr [Num 1, Num 2, Num 3, Num 4] \<and>
   cfg_minvalue example_config = Some (Num 0) \<and>
   cfg_maxvalue example_config = Some (Num 10) \<and>
   py_le (Num 0) (Num 1) \<and> py_le (Num 4) (Num 10) \<and>
   map_sum id (map band_array \<circ> ds_bands) (load_r_raster example_world ''a.grd'')
     = Inr [[[Num 255, Num 255], [Num 255, Num 255]]]"
  by (simp add: eval_defs example_world_def example_config_def)

text \<open>
  C5. The specification asks that packed values come back from \<open>load_r_raster\<close> as they were.
  The bytes \<open>FF FE 01 2C\<close> are the big-endian \<^verbatim>\<open>INT2S\<close> packing of -2 and 300, both inside
  the declared range from -1000 to 1000; the raster loaded from them holds the nodata
  value -32768 in both cells.
\<close>

theorem round_trip_lost:
  "bin_files example_world ''s.gri'' = Some [255, 254, 1, 44] \<and>
   struct_unpack CHR ''>'' CHR ''h'' [255, 254, 1, 44] = Inr [Num (- 2), Num 300] \<and>
   cfg_minvalue signed_config = Some (Num (- 1000)) \<and>
   cfg_maxvalue signed_config = Some (Num 1000) \<and>
   py_le (Num (- 1000)) (Num (- 2)) \<and> py_le (Num 300) (Num 1000) \<and>
   map_sum id (map band_array \<circ> ds_bands) (load_r_raster example_world ''s.grd'')
     = Inr [[[Num (- 32768), Num (- 32768)]]]"
  by (simp add: eval_defs example_world_def signed_config_def)

text \<open>
  C8. The specification asks for an exception that identifies the unreadable file. Line 48 raises
  the pair \<^verbatim>\<open>(Exception, 'could not read R raster file ...')\<close>, which is no exception, so
  Python raises \<^verbatim>\<open>TypeError\<close> with its own message and the path is lost.
\<close>

theorem unreadable_sidecar_raises_type_error:
  "ini_files example_world (with_ext ''missing.grd'' ''grd'') = Unreadable \<and>
   load_r_raster example_world ''missing.grd''
     = Inl (TypeError ''exceptions must derive from BaseException'') \<and>
   load_r_raster example_world ''missing.grd''
     \<noteq> Inl (PyException (''could not read R raster file '' @ with_ext ''missing.grd'' ''grd''))"
  by (simp add: eval_defs example_world_def)

subsection \<open>Grid, geotransform and nodata value of a loaded raster\<close>

text \<open>
  C6. Let the sidecar declare \<open>ncols\<close>, \<open>nrows\<close>, \<open>xmin\<close>, \<open>xmax\<close>, \<open>ymin\<close>, \<open>ymax\<close> and a
  nodata value. Every raster that \<open>load_r_raster\<close> returns has \<open>nrows\<close> rows and \<open>ncols\<close>
  columns (as its size and as the shape of the array of its one band), the geotransform
  \<open>(xmin, (xmax - xmin) / ncols, 0, ymax, 0, (ymax - ymin) / nrows)\<close>, and the declared
  nodata value on band 1. It does return a raster when, besides, the payload can be read
  and is \<open>nrows * ncols\<close> values long, both sizes are positive, the datatype and byte order
  tags are known, the value range is declared and the projection can be imported.
\<close>

theorem load_r_raster_georeference:
  assumes "ini_files world (with_ext filename ''grd'') = Parsed config"
    and "cfg_ncols config = Some ncols" and "cfg_nrows config = Some nrows"
    and "cfg_xmin config = Some xmin" and "cfg_xmax config = Some xmax"
    and "cfg_ymin config = Some ymin" and "cfg_ymax config = Some ymax"
    and "cfg_nodatavalue config = Some nodatavalue"
  shows "(\<forall>ds. load_r_raster world filename = Inr ds \<longrightarrow>
           int (RasterYSize ds) = nrows \<and> int (RasterXSize ds) = ncols \<and>
           GeoTransform ds = (xmin, (xmax - xmin) / real_of_int ncols, 0,
                              ymax, 0, (ymax - ymin) / real_of_int nrows) \<and>
           (\<exists>b. ds_bands ds = [b] \<and> band_nodata b = Some nodatavalue \<and>
                int (length (band_array b)) = nrows \<and>
                (\<forall>row \<in> set (band_array b). int (length row) = ncols))) \<and>
         ((\<exists>binstring datatype dt w byteorder bo minval maxval proj4 wkt.
             bin_files world (with_ext filename ''gri'') = Some binstring \<and>
             cfg_datatype config = Some datatype \<and> DATATYPES datatype = Some dt \<and>
             calcsize dt = Some w \<and>
             cfg_byteorder config = Some byteorder \<and> BYTEORDER byteorder = Some bo \<and>
             0 < ncols \<and> 0 < nrows \<and> length binstring = nat (nrows * ncols) * w \<and>
             cfg_minvalue config = Some minval \<and> cfg_maxvalue config = Some maxval \<and>
             cfg_projection config = Some proj4 \<and> proj4_to_wkt world proj4 = Inr wkt)
          \<longrightarrow> (\<exists>ds. load_r_raster world filename = Inr ds))"
proof -
  have returned:
    "int (RasterYSize ds) = nrows \<and> int (RasterXSize ds) = ncols \<and>
     GeoTransform ds = (xmin, (xmax - xmin) / real_of_int ncols, 0,
                        ymax, 0, (ymax - ymin) / real_of_int nrows) \<and>
     (\<exists>b. ds_bands ds = [b] \<and> band_nodata b = Some nodatavalue \<and>
          int (length (band_array b)) = nrows \<and>
          (\<forall>row \<in> set (band_array b). int (length row) = ncols))"
    if ok: "load_r_raster world filename = Inr ds" for ds
  proof -
    from load_r_raster_Inr [OF ok] assms
    obtain vals minval maxval arr ty wkt where
      pos: "0 < ncols" "0 < nrows" and
      arr: "np_reshape (filter_values minval maxval nodatavalue vals) nrows ncols = Inr arr" and
      ds: "ds = \<lparr>ds_description = with_ext filename ''tif'', RasterXSize = nat ncols,
             RasterYSize = nat nrows,
             GeoTransform = (xmin, (xmax - xmin) / real_of_int ncols, 0, ymax, 0,
                             (ymax - ymin) / real_of_int nrows),
             Projection = wkt,
             ds_bands = [\<lparr>band_description = [], band_array = map (map (gdal_store ty)) arr,
                          band_nodata = Some nodatavalue, band_type = ty\<rparr>]\<rparr>"
      by auto
    from np_reshape_pos [OF arr pos(2) pos(1)]
    have len: "int (length vals) = nrows * ncols"
      and rows: "arr = rows_of (nat nrows) (nat ncols)
                         (filter_values minval maxval nodatavalue vals)"
      by simp_all
    from len pos
    have len': "length (filter_values minval maxval nodatavalue vals) = nat nrows * nat ncols"
      by (simp add: nat_mult_distrib [symmetric] nat_eq_iff)
    have "\<forall>row \<in> set arr. int (length row) = ncols"
      using rows_of_row_length [OF len'] pos rows by auto
    with ds pos rows show ?thesis by simp
  qed
  have succeeds: "\<exists>ds. load_r_raster world filename = Inr ds"
    if "\<exists>binstring datatype dt w byteorder bo minval maxval proj4 wkt.
             bin_files world (with_ext filename ''gri'') = Some binstring \<and>
             cfg_datatype config = Some datatype \<and> DATATYPES datatype = Some dt \<and>
             calcsize dt = Some w \<and>
             cfg_byteorder config = Some byteorder \<and> BYTEORDER byteorder = Some bo \<and>
             0 < ncols \<and> 0 < nrows \<and> length binstring = nat (nrows * ncols) * w \<and>
             cfg_minvalue config = Some minval \<and> cfg_maxvalue config = Some maxval \<and>
             cfg_projection config = Some proj4 \<and> proj4_to_wkt world proj4 = Inr wkt"
  proof -
    from that obtain binstring tag dt w byteorder bo minval maxval proj4 wkt where
      rest: "bin_files world (with_ext filename ''gri'') = Some binstring"
      "cfg_datatype config = Some tag" "DATATYPES tag = Some dt"
      "calcsize dt = Some w"
      "cfg_byteorder config = Some byteorder" "BYTEORDER byteorder = Some bo"
      "0 < ncols" "0 < nrows" "length binstring = nat (nrows * ncols) * w"
      "cfg_minvalue config = Some minval" "cfg_maxvalue config = Some maxval"
      "cfg_projection config = Some proj4" "proj4_to_wkt world proj4 = Inr wkt"
      by blast
    show ?thesis
      by (rule load_r_raster_succeeds [OF assms(1) rest(1) rest(2) rest(3) rest(5) rest(6)
            rest(4) assms(2) assms(3) rest(7) rest(8) rest(9) assms(5) assms(4) assms(7)
            assms(6) rest(10) rest(11) assms(8) rest(12) rest(13)])
  qed
  from returned succeeds show ?thesis by blast
qed

theorem load_r_raster_georeference_witness:
  "\<exists>ds. load_r_raster example_world ''a.grd'' = Inr ds \<and>
        int (RasterYSize ds) = 2 \<and> int (RasterXSize ds) = 2 \<and>
        GeoTransform ds = (0, 1, 0, 10, 0, 1) \<and>
        map band_nodata (ds_bands ds) = [Some (Num 255)] \<and>
        map (length \<circ> band_array) (ds_bands ds) = [2]"
proof -
  have parsed: "ini_files example_world (with_ext ''a.grd'' ''grd'') = Parsed example_config"
    by (simp add: example_world_def example_paths)
  have fields: "cfg_ncols example_config = Some 2" "cfg_nrows example_config = Some 2"
    "cfg_xmin example_config = Some 0" "cfg_xmax example_config = Some 2"
    "cfg_ymin example_config = Some 8" "cfg_ymax example_config = Some 10"
    "cfg_nodatavalue example_config = Some (Num 255)"
    by (simp_all add: example_config_def)
  note inst = load_r_raster_georeference [OF parsed fields]
  have "\<exists>binstring datatype dt w byteorder bo minval maxval proj4 wkt.
      bin_files example_world (with_ext ''a.grd'' ''gri'') = Some binstring \<and>
      cfg_datatype example_config = Some datatype \<and> DATATYPES datatype = Some dt \<and>
      calcsize dt = Some w \<and>
      cfg_byteorder example_config = Some byteorder \<and> BYTEORDER byteorder = Some bo \<and>
      (0::int) < 2 \<and> (0::int) < 2 \<and> length binstring = nat (2 * 2) * w \<and>
      cfg_minvalue example_config = Some minval \<and> cfg_maxvalue example_config = Some maxval \<and>
      cfg_projection example_config = Some proj4 \<and>
      proj4_to_wkt example_world proj4 = Inr wkt"
    by (intro exI [of _ "[1, 2, 3, 4]"] exI [of _ "''INT1U''"] exI [of _ "CHR ''B''"]
          exI [of _ "1::nat"] exI [of _ "''little''"] exI [of _ "CHR ''<''"]
          exI [of _ "Num 0"] exI [of _ "Num 10"] exI [of _ "''+proj=longlat''"]
          exI [of _ "''WKT:+proj=longlat''"])
       (simp add: example_world_def example_config_def example_paths DATATYPES_def
          BYTEORDER_def calcsize_def)
  with inst obtain ds where ds: "load_r_raster example_world ''a.grd'' = Inr ds"
    by blast
  with inst have props: "int (RasterYSize ds) = 2" "int (RasterXSize ds) = 2"
    "GeoTransform ds = (0, (2 - 0) / real_of_int 2, 0, 10, 0, (10 - 8) / real_of_int 2)"
    "\<exists>b. ds_bands ds = [b] \<and> band_nodata b = Some (Num 255) \<and>
         int (length (band_array b)) = 2 \<and>
         (\<forall>row \<in> set (band_array b). int (length row) = 2)"
    by blast+
  from props(4) have "map band_nodata (ds_bands ds) = [Some (Num 255)]"
    "map (length \<circ> band_array) (ds_bands ds) = [2]" by auto
  with ds props(1-3) show ?thesis by (intro exI [of _ ds]) simp
qed

subsection \<open>Payload size\<close>

text \<open>
  C7. Let the payload be \<open>binstring\<close> and the datatype's width \<open>width\<close>. When the load
  returns a raster, the payload was unpacked into a flat sequence of exactly
  \<open>nrows * ncols\<close> values. When the element count, the payload's length divided by the
  width, is not \<open>nrows * ncols\<close>, the load returns an error and no raster.
\<close>

theorem payload_size_mismatch_fails:
  assumes "ini_files world (with_ext filename ''grd'') = Parsed config"
    and "bin_files world (with_ext filename ''gri'') = Some binstring"
    and "cfg_datatype config = Some datatype" and "DATATYPES datatype = Some dt"
    and "calcsize dt = Some width"
    and "cfg_ncols config = Some ncols" and "cfg_nrows config = Some nrows"
  shows "(\<forall>ds. load_r_raster world filename = Inr ds \<longrightarrow>
           (\<exists>bo vals. struct_unpack bo dt binstring = Inr vals \<and>
              int (length vals) = nrows * ncols)) \<and>
         (real (length binstring) / real width \<noteq> real_of_int (nrows * ncols) \<longrightarrow>
           (\<exists>e. load_r_raster world filename = Inl e))"
proof -
  have unpacked: "\<exists>bo vals. struct_unpack bo dt binstring = Inr vals \<and>
      int (length vals) = nrows * ncols"
    if ok: "load_r_raster world filename = Inr ds" for ds
  proof -
    from load_r_raster_Inr [OF ok] assms
    obtain bo vals minval maxval nodatavalue arr where
      pos: "0 < ncols" "0 < nrows" and
      vals: "struct_unpack bo dt binstring = Inr vals" and
      arr: "np_reshape (filter_values minval maxval nodatavalue vals) nrows ncols = Inr arr"
      by auto
    from np_reshape_pos [OF arr pos(2) pos(1)] have "int (length vals) = nrows * ncols"
      by simp
    with vals show ?thesis by blast
  qed
  have "\<exists>e. load_r_raster world filename = Inl e"
    if differs: "real (length binstring) / real width \<noteq> real_of_int (nrows * ncols)"
  proof (cases "load_r_raster world filename")
    case (Inl e)
    then show ?thesis by blast
  next
    case (Inr ds)
    from unpacked [OF Inr] obtain bo vals where
      vals: "struct_unpack bo dt binstring = Inr vals" and
      len: "int (length vals) = nrows * ncols" by blast
    from struct_unpack_Inr [OF vals assms(5)]
    have bytes: "length binstring = length vals * width" .
    from assms(5) have "0 < width" by (rule calcsize_pos)
    with bytes have "real (length binstring) / real width = real (length vals)" by simp
    also have "\<dots> = real_of_int (int (length vals))" by simp
    also have "\<dots> = real_of_int (nrows * ncols)" by (simp only: len)
    finally show ?thesis using differs by simp
  qed
  with unpacked show ?thesis by blast
qed

theorem payload_size_mismatch_fails_witness:
  "real (length [1, 2, 3 :: byte]) / real (1 :: nat) \<noteq> real_of_int (2 * 2) \<and>
   (\<exists>e. load_r_raster example_world ''short.gri'' = Inl e) \<and>
   (\<exists>bo vals. struct_unpack bo CHR ''B'' [1, 2, 3, 4] = Inr vals \<and>
      int (length vals) = 2 * 2)"
proof -
  have short: "ini_files example_world (with_ext ''short.gri'' ''grd'') = Parsed example_config"
    "bin_files example_world (with_ext ''short.gri'' ''gri'') = Some [1, 2, 3]"
    by (simp_all add: example_world_def example_paths)
  have full: "ini_files example_world (with_ext ''a.grd'' ''grd'') = Parsed example_config"
    "bin_files example_world (with_ext ''a.grd'' ''gri'') = Some [1, 2, 3, 4]"
    by (simp_all add: example_world_def example_paths)
  have fields: "cfg_datatype example_config = Some ''INT1U''"
    "DATATYPES ''INT1U'' = Some CHR ''B''" "calcsize CHR ''B'' = Some 1"
    "cfg_ncols example_config = Some 2" "cfg_nrows example_config = Some 2"
    by (simp_all add: example_config_def DATATYPES_def calcsize_def)
  have differs: "real (length [1, 2, 3 :: byte]) / real (1 :: nat) \<noteq> real_of_int (2 * 2)"
    by simp
  from payload_size_mismatch_fails [OF short fields] differs
  have fails: "\<exists>e. load_r_raster example_world ''short.gri'' = Inl e" by blast
  from payload_size_mismatch_fails [OF full fields] example_load
  have "\<exists>bo vals. struct_unpack bo CHR ''B'' [1, 2, 3, 4] = Inr vals \<and>
      int (length vals) = 2 * 2" by blast
  with differs fails show ?thesis by (intro conjI)
qed

subsection \<open>The generic open path of \<open>load\<close>\<close>

text \<open>
  C9. Let the file be routed to the generic open: the raster type is not \<^verbatim>\<open>r-raster\<close>, and
  where it is empty or absent the extension is neither \<^verbatim>\<open>gri\<close> nor \<^verbatim>\<open>grd\<close>. Then \<open>load\<close>
  opens the file read-only and returns the handle; when the open fails, with any
  exception, \<open>load\<close> raises nothing, prints one line and returns \<^verbatim>\<open>None\<close>.
\<close>

theorem load_generic_open:
  assumes "rastertype \<noteq> Some ''r-raster''"
    and "rastertype = None \<or> rastertype = Some [] \<Longrightarrow>
         last (split_sep extsep filename) \<notin> {''gri'', ''grd''}"
  shows "(\<forall>ds. gdal_open world filename GA_ReadOnly = Inr ds \<longrightarrow>
            load world filename rastertype = (Inr (Some ds), [])) \<and>
         (\<forall>e. gdal_open world filename GA_ReadOnly = Inl e \<longrightarrow>
            load world filename rastertype
              = (Inr None, [''could not open raster file '' @ filename]))"
  using assms by (auto simp: load_def Let_def)

theorem load_generic_open_witness:
  "load example_world ''bio1.tif'' None = (Inr (Some cell_plain), []) \<and>
   load example_world ''bio2.tif'' None
     = (Inr None, [''could not open raster file bio2.tif'']) \<and>
   load example_world ''a.grd'' (Some ''gtiff'')
     = (Inr None, [''could not open raster file a.grd''])"
proof -
  have ext: "last (split_sep extsep ''bio1.tif'') \<notin> {''gri'', ''grd''}"
    "last (split_sep extsep ''bio2.tif'') \<notin> {''gri'', ''grd''}"
    by (simp_all add: extsep_def)
  have opened: "gdal_open example_world ''bio1.tif'' GA_ReadOnly = Inr cell_plain"
    "gdal_open example_world ''bio2.tif'' GA_ReadOnly = Inl RuntimeError"
    "gdal_open example_world ''a.grd'' GA_ReadOnly = Inl RuntimeError"
    by (simp_all add: example_world_def)
  from load_generic_open [of None "''bio1.tif''" example_world] ext(1) opened(1)
  have a: "load example_world ''bio1.tif'' None = (Inr (Some cell_plain), [])" by simp
  from load_generic_open [of None "''bio2.tif''" example_world] ext(2) opened(2)
  have b: "load example_world ''bio2.tif'' None
     = (Inr None, [''could not open raster file bio2.tif''])" by simp
  from load_generic_open [of "Some ''gtiff''" "''a.grd''" example_world] opened(3)
  have c: "load example_world ''a.grd'' (Some ''gtiff'')
     = (Inr None, [''could not open raster file a.grd''])" by simp
  from a b c show ?thesis by (intro conjI)
qed


subsection \<open>Alignment in \<open>rasters_to_table\<close>\<close>

lemma get_transforms_Some:
  "get_transforms (map Some rasters) = Inr (map (\<lambda>r. (GeoTransform r, Projection r)) rasters)"
  by (induction rasters) (simp_all add: thenE_def)

lemma count_list_eq_length: "count_list xs a = length xs \<longleftrightarrow> (\<forall>x \<in> set xs. x = a)"
proof (induction xs)
  case Nil
  then show ?case by simp
next
  case (Cons x xs)
  have "count_list xs a \<le> length xs" by (rule count_le_length)
  with Cons show ?case by auto
qed

lemma all_equal_Cons: "all_equal (x # xs) = Inr (\<forall>y \<in> set xs. y = x)"
  by (simp add: all_equal_def count_list_eq_length)

lemma rasters_to_table_Cons:
  assumes "load_list world filenames = (Inr (map Some (r0 # rs)), out)"
  shows "rasters_to_table world filenames =
      (thenE (if (\<forall>r \<in> set rs. GeoTransform r = GeoTransform r0) \<and>
                 (\<forall>r \<in> set rs. Projection r = Projection r0)
              then Inr (r0 # rs) else Inl NameError) make_table, out)"
proof -
  have gt: "get_transforms (Some r0 # map Some rs)
      = Inr ((GeoTransform r0, Projection r0) # map (\<lambda>r. (GeoTransform r, Projection r)) rs)"
    using get_transforms_Some [of "r0 # rs"] by simp
  have the_Some: "map the (map Some rs) = rs" by (simp add: comp_def)
  have same_gt: "all_equal (GeoTransform r0 # map (\<lambda>r. GeoTransform r) rs)
      = Inr (\<forall>r \<in> set rs. GeoTransform r = GeoTransform r0)"
    by (simp add: all_equal_Cons)
  have same_proj: "all_equal (Projection r0 # map (\<lambda>r. Projection r) rs)
      = Inr (\<forall>r \<in> set rs. Projection r = Projection r0)"
    by (simp add: all_equal_Cons)
  show ?thesis
    using assms
    by (simp add: rasters_to_table_def gt the_Some same_gt same_proj comp_def thenE_def
          del: get_transforms.simps)
qed

lemma all_same_Cons:
  "(\<forall>r \<in> set (r0 # rs). \<forall>r' \<in> set (r0 # rs). f r = f r') \<longleftrightarrow> (\<forall>r \<in> set rs. f r = f r0)"
proof
  assume all: "\<forall>r \<in> set (r0 # rs). \<forall>r' \<in> set (r0 # rs). f r = f r'"
  show "\<forall>r \<in> set rs. f r = f r0"
  proof
    fix r assume "r \<in> set rs"
    then have "r \<in> set (r0 # rs)" "r0 \<in> set (r0 # rs)" by simp_all
    with all show "f r = f r0" by blast
  qed
next
  assume same: "\<forall>r \<in> set rs. f r = f r0"
  have first: "f r = f r0" if "r \<in> set (r0 # rs)" for r
  proof (cases "r = r0")
    case True
    then show ?thesis by simp
  next
    case False
    with that have "r \<in> set rs" by simp
    with same show ?thesis by blast
  qed
  show "\<forall>r \<in> set (r0 # rs). \<forall>r' \<in> set (r0 # rs). f r = f r'"
  proof (intro ballI)
    fix r r' assume r: "r \<in> set (r0 # rs)" and r': "r' \<in> set (r0 # rs)"
    from first [OF r] first [OF r'] show "f r = f r'" by (rule trans [OF _ sym])
  qed
qed

lemma example_lists:
  "load_list example_world [''bio1.tif'', ''bio4.tif'']
     = (Inr (map Some [cell_plain, cell_shifted]), [])"
  "load_list example_world [''bio1.tif'', ''bio1.tif'']
     = (Inr (map Some [cell_plain, cell_plain]), [])"
proof -
  have "load example_world ''bio1.tif'' None = (Inr (Some cell_plain), [])"
    "load example_world ''bio4.tif'' None = (Inr (Some cell_shifted), [])"
    by (simp_all add: load_def example_world_def extsep_def)
  then show
    "load_list example_world [''bio1.tif'', ''bio4.tif'']
       = (Inr (map Some [cell_plain, cell_shifted]), [])"
    "load_list example_world [''bio1.tif'', ''bio1.tif'']
       = (Inr (map Some [cell_plain, cell_plain]), [])"
    by (simp_all add: thenE_def)
qed

text \<open>
  C4. The specification asks that rasters which differ in geotransform or projection are
  resampled and reprojected before the table is built. \<^verbatim>\<open>bio1.tif\<close> and \<^verbatim>\<open>bio4.tif\<close> load
  to rasters whose geotransforms differ, and \<open>rasters_to_table\<close> raises \<^verbatim>\<open>NameError\<close>
  without building a table: nothing binds the name \<^verbatim>\<open>resample_and_reproject\<close>. On
  \<^verbatim>\<open>bio1.tif\<close> twice, where all agree, the table is built from the rasters as loaded.
\<close>

theorem mismatch_raises_name_error:
  "load example_world ''bio1.tif'' None = (Inr (Some cell_plain), []) \<and>
   load example_world ''bio4.tif'' None = (Inr (Some cell_shifted), []) \<and>
   GeoTransform cell_plain \<noteq> GeoTransform cell_shifted \<and>
   rasters_to_table example_world [''bio1.tif'', ''bio4.tif''] = (Inl NameError, []) \<and>
   rasters_to_table example_world [''bio1.tif'', ''bio1.tif'']
     = (make_table [cell_plain, cell_plain], [])"
proof -
  have loads: "load example_world ''bio1.tif'' None = (Inr (Some cell_plain), [])"
    "load example_world ''bio4.tif'' None = (Inr (Some cell_shifted), [])"
    by (simp_all add: load_def example_world_def extsep_def)
  have differ: "GeoTransform cell_plain \<noteq> GeoTransform cell_shifted"
    by (simp add: cell_plain_def cell_shifted_def)
  have raised: "rasters_to_table example_world [''bio1.tif'', ''bio4.tif'']
      = (Inl NameError, [])"
    using differ by (simp add: rasters_to_table_Cons [OF example_lists(1)] thenE_def)
  have built: "rasters_to_table example_world [''bio1.tif'', ''bio1.tif'']
      = (make_table [cell_plain, cell_plain], [])"
    by (simp add: rasters_to_table_Cons [OF example_lists(2)] thenE_def)
  show ?thesis
    by (intro conjI) (rule loads differ raised built)+
qed

text \<open>
  X4. Let every file name load to a raster, at least one. When two of the rasters differ
  in geotransform or projection, \<open>rasters_to_table\<close> raises \<^verbatim>\<open>NameError\<close>; when all
  agree, the table is built by \<open>make_table\<close> from the rasters as loaded.
\<close>

theorem rasters_to_table_alignment:
  assumes "load_list world filenames = (Inr (map Some rasters), out)"
    and "rasters \<noteq> []"
  shows "((\<exists>r \<in> set rasters. \<exists>r' \<in> set rasters.
             (GeoTransform r, Projection r) \<noteq> (GeoTransform r', Projection r')) \<longrightarrow>
          rasters_to_table world filenames = (Inl NameError, out)) \<and>
         ((\<forall>r \<in> set rasters. \<forall>r' \<in> set rasters.
             (GeoTransform r, Projection r) = (GeoTransform r', Projection r')) \<longrightarrow>
          rasters_to_table world filenames = (make_table rasters, out))"
proof -
  let ?pair = "\<lambda>r. (GeoTransform r, Projection r)"
  let ?table = "rasters_to_table world filenames"
  from assms(2) obtain r0 rs where rasters: "rasters = r0 # rs" by (cases rasters) auto
  let ?same = "(\<forall>r \<in> set rs. GeoTransform r = GeoTransform r0) \<and>
               (\<forall>r \<in> set rs. Projection r = Projection r0)"
  from assms(1) have "load_list world filenames = (Inr (map Some (r0 # rs)), out)"
    by (simp only: rasters)
  then have unfolded: "?table =
      (thenE (if ?same then Inr (r0 # rs) else Inl NameError) make_table, out)"
    by (rule rasters_to_table_Cons)
  have "(\<forall>r \<in> set rs. ?pair r = ?pair r0) \<longleftrightarrow> ?same" by blast
  then have same_iff:
    "(\<forall>r \<in> set rasters. \<forall>r' \<in> set rasters. ?pair r = ?pair r') \<longleftrightarrow> ?same"
    unfolding rasters by (simp only: all_same_Cons [of r0 rs ?pair])
  have aligned: "?table = (make_table rasters, out)" if ?same
  proof -
    from that
    have "(if ?same then Inr (r0 # rs) else Inl NameError) = Inr (r0 # rs)"
      by (rule if_P)
    then show ?thesis unfolding unfolded rasters by (simp only: thenE_def sum.case)
  qed
  have misaligned: "?table = (Inl NameError, out)" if "\<not> ?same"
  proof -
    from that
    have "(if ?same then Inr (r0 # rs) else Inl NameError)
        = (Inl NameError :: error + dataset list)"
      by (rule if_not_P)
    then show ?thesis unfolding unfolded rasters by (simp only: thenE_def sum.case)
  qed
  show ?thesis
  proof (intro conjI impI)
    assume "\<exists>r \<in> set rasters. \<exists>r' \<in> set rasters. ?pair r \<noteq> ?pair r'"
    then have "\<not> (\<forall>r \<in> set rasters. \<forall>r' \<in> set rasters. ?pair r = ?pair r')" by blast
    then have "\<not> ?same" unfolding same_iff .
    then show "?table = (Inl NameError, out)" by (rule misaligned)
  next
    assume "\<forall>r \<in> set rasters. \<forall>r' \<in> set rasters. ?pair r = ?pair r'"
    then have ?same unfolding same_iff .
    then show "?table = (make_table rasters, out)" by (rule aligned)
  qed
qed

theorem rasters_to_table_alignment_witness:
  "rasters_to_table example_world [''bio4.tif'', ''bio1.tif''] = (Inl NameError, []) \<and>
   rasters_to_table example_world [''bio4.tif'', ''bio4.tif'']
     = (make_table [cell_shifted, cell_shifted], [])"
proof -
  have loads: "load example_world ''bio1.tif'' None = (Inr (Some cell_plain), [])"
    "load example_world ''bio4.tif'' None = (Inr (Some cell_shifted), [])"
    by (simp_all add: load_def example_world_def extsep_def)
  then have lists:
    "load_list example_world [''bio4.tif'', ''bio1.tif'']
       = (Inr (map Some [cell_shifted, cell_plain]), [])"
    "load_list example_world [''bio4.tif'', ''bio4.tif'']
       = (Inr (map Some [cell_shifted, cell_shifted]), [])"
    by (simp_all add: thenE_def)
  have differ: "GeoTransform cell_shifted \<noteq> GeoTransform cell_plain"
    by (simp add: cell_plain_def cell_shifted_def)
  have mismatch: "\<exists>r \<in> set [cell_shifted, cell_plain]. \<exists>r' \<in> set [cell_shifted, cell_plain].
      (GeoTransform r, Projection r) \<noteq> (GeoTransform r', Projection r')"
    using differ by (intro bexI [of _ cell_shifted] bexI [of _ cell_plain]) simp_all
  have same: "\<forall>r \<in> set [cell_shifted, cell_shifted]. \<forall>r' \<in> set [cell_shifted, cell_shifted].
      (GeoTransform r, Projection r) = (GeoTransform r', Projection r')"
    by simp
  have nonempty: "[cell_shifted, cell_plain] \<noteq> []" "[cell_shifted, cell_shifted] \<noteq> []"
    by simp_all
  from rasters_to_table_alignment [OF lists(1) nonempty(1), THEN conjunct1, THEN mp, OF mismatch]
  have a: "rasters_to_table example_world [''bio4.tif'', ''bio1.tif''] = (Inl NameError, [])" .
  from rasters_to_table_alignment [OF lists(2) nonempty(2), THEN conjunct2, THEN mp, OF same]
  have b: "rasters_to_table example_world [''bio4.tif'', ''bio4.tif'']
     = (make_table [cell_shifted, cell_shifted], [])" .
  from a b show ?thesis by (intro conjI)
qed

subsection \<open>The table of \<open>make_table\<close>\<close>

lemmas table_defs = make_table_def linspace_def meshgrid_def thenE_def fetch_def plain_band_def
  basename_def extsep_def upt_rec eval_nat_numeral Let_def

text \<open>
  C2. The specification asks for \<open>rows * cols\<close> table rows with scalar cell-centre coordinates.
  On the grid of two rows and two columns with origin \<open>(0, 10)\<close>, pixel width 1 and pixel
  height -1, \<open>make_table\<close> raises \<^verbatim>\<open>IndexError\<close>: it indexes the two-row coordinate mesh
  with the cell index, which runs to 3. On the grid of two rows and one column it returns
  two rows whose \<open>x\<close> and \<open>y\<close> are one-element arrays, with \<open>y\<close> at 10.5 and 12.5 where
  the specified formula \<open>topleft_y + yres / 2 + i * yres\<close> gives 9.5 and 8.5.
\<close>

theorem make_table_coordinates_fail:
  "RasterXSize grid22 = 2 \<and> RasterYSize grid22 = 2 \<and>
   GeoTransform grid22 = (0, 1, 0, 10, 0, - 1) \<and>
   make_table [grid22] = Inl IndexError \<and>
   RasterXSize column21 = 1 \<and> RasterYSize column21 = 2 \<and>
   GeoTransform column21 = (0, 1, 0, 10, 0, - 1) \<and>
   map_sum id (map (\<lambda>row. (row ''x'', row ''y''))) (make_table [column21])
     = Inr [(Some (Coords [1 / 2]), Some (Coords [21 / 2])),
            (Some (Coords [1 / 2]), Some (Coords [25 / 2]))]"
  by (simp add: table_defs grid22_def column21_def)

text \<open>
  C3. The specification asks that a band's values appear under its description, or under a name
  made from the file's base name. A single band with the description \<^verbatim>\<open>temperature\<close>
  makes \<open>make_table\<close> raise \<^verbatim>\<open>UnboundLocalError\<close>, since \<^verbatim>\<open>band_name\<close> is assigned only
  for an empty description. So do two bands without descriptions, since \<^verbatim>\<open>i\<close> is not yet
  bound. A single band without description in \<^verbatim>\<open>data/bio1.tif\<close> is stored under the empty
  key and not under \<^verbatim>\<open>bio1\<close>. After it, both bands of \<^verbatim>\<open>data/bio3.tif\<close> are stored under
  the one key \<^verbatim>\<open>_1\<close>, the second value overwriting the first.
\<close>

theorem make_table_feature_names_fail:
  "map band_description (ds_bands cell_named) = [''temperature''] \<and>
   make_table [cell_named] = Inl UnboundLocalError \<and>
   map band_description (ds_bands cell_two_bands) = [[], []] \<and>
   make_table [cell_two_bands] = Inl UnboundLocalError \<and>
   ds_description cell_plain = ''data/bio1.tif'' \<and>
   map band_description (ds_bands cell_plain) = [[]] \<and>
   map_sum id (map (\<lambda>row. (row [], row ''bio1''))) (make_table [cell_plain])
     = Inr [(Some (Value (Num 7)), None)] \<and>
   map_sum id (map (\<lambda>row. (row ''_1'', row ''bio3_1'', row ''bio3_2'')))
       (make_table [cell_plain, cell_two_bands])
     = Inr [(Some (Value (Num 6)), None, None)]"
  by (simp add: table_defs cell_named_def cell_two_bands_def cell_plain_def str_nat.simps)

subsection \<open>When \<open>make_table\<close> returns at all\<close>

lemma assign_values_length:
  "assign_values st vs k = Inr st' \<Longrightarrow>
   length (var_instances st') = length (var_instances st)"
proof (induction vs arbitrary: st k)
  case Nil
  then show ?case by simp
next
  case (Cons v vs)
  from Cons.prems show ?case
    by (auto simp: Let_def thenE_Inr fetch_Inr split: if_splits dest!: Cons.IH)
qed

lemma band_loop_length:
  "band_loop n st bs = Inr st' \<Longrightarrow> length (var_instances st') = length (var_instances st)"
proof (induction bs arbitrary: st)
  case Nil
  then show ?case by simp
next
  case (Cons b bs)
  from Cons.prems show ?case
    by (auto simp: Let_def thenE_Inr fetch_Inr split: if_splits
          dest!: Cons.IH assign_values_length)
qed

lemma raster_loop_length:
  "raster_loop st rs = Inr st' \<Longrightarrow> length (var_instances st') = length (var_instances st)"
proof (induction rs arbitrary: st)
  case Nil
  then show ?case by simp
next
  case (Cons r rs)
  from Cons.prems show ?case
    by (auto simp: Let_def thenE_Inr dest!: Cons.IH band_loop_length)
qed

lemma add_xy_length:
  "add_xy insts x_mesh y_mesh k = Inr t \<Longrightarrow>
   length t = length insts \<and> (insts \<noteq> [] \<longrightarrow> k + length insts \<le> length x_mesh)"
proof (induction insts arbitrary: k t)
  case Nil
  then show ?case by auto
next
  case (Cons inst insts)
  from Cons.prems obtain t' where tail: "add_xy insts x_mesh y_mesh (Suc k) = Inr t'"
    and t: "t = inst(''x'' \<mapsto> Coords (x_mesh ! k), ''y'' \<mapsto> Coords (y_mesh ! k)) # t'"
    and k: "k < length x_mesh"
    by (auto simp: thenE_Inr split: if_splits)
  from Cons.IH [OF tail] t k show ?case by (cases insts) auto
qed

lemma length_linspace [simp]: "length (linspace start stop num) = num"
  by (simp add: linspace_def)

text \<open>
  X1. Whenever \<open>make_table\<close> returns, it returns one row per cell, and the grid of the
  first raster has at most one column or no row: on every grid with two or more columns
  and at least one row it raises.
\<close>

theorem make_table_returns_only_on_columns:
  assumes "make_table (r0 # rs) = Inr t"
  shows "length t = RasterXSize r0 * RasterYSize r0 \<and>
         (RasterXSize r0 \<le> 1 \<or> RasterYSize r0 = 0)"
proof -
  obtain topleft_x xres r1 topleft_y r2 yres
    where gt: "GeoTransform r0 = (topleft_x, xres, r1, topleft_y, r2, yres)"
    by (cases "GeoTransform r0") auto
  let ?cols = "RasterXSize r0" and ?rows = "RasterYSize r0"
  let ?x_mesh = "replicate ?rows (linspace (topleft_x + xres / 2)
      (topleft_x + xres / 2 + xres * real ?cols) ?cols)"
  let ?y_mesh = "map (replicate ?cols) (linspace (topleft_y - yres / 2)
      (topleft_y - yres / 2 - yres * real ?rows) ?rows)"
  from assms gt
  have "\<exists>st. raster_loop \<lparr>var_instances = replicate (?cols * ?rows) Map.empty, var_name = [],
             var_band_name = None, var_i = None\<rparr> (r0 # rs) = Inr st \<and>
          add_xy (var_instances st) ?x_mesh ?y_mesh 0 = Inr t"
    by (simp add: make_table_def Let_def thenE_Inr meshgrid_def del: raster_loop.simps)
  then obtain st where
    loop: "raster_loop \<lparr>var_instances = replicate (?cols * ?rows) Map.empty, var_name = [],
             var_band_name = None, var_i = None\<rparr> (r0 # rs) = Inr st"
    and xy: "add_xy (var_instances st) ?x_mesh ?y_mesh 0 = Inr t"
    by blast
  have mesh: "length ?x_mesh = ?rows" by simp
  from raster_loop_length [OF loop]
  have insts: "length (var_instances st) = ?cols * ?rows" by simp
  with add_xy_length [OF xy] have len: "length t = ?cols * ?rows" by simp
  have "?cols \<le> 1 \<or> ?rows = 0"
  proof (cases "var_instances st = []")
    case True
    with insts show ?thesis by auto
  next
    case False
    with add_xy_length [OF xy] insts mesh have "?cols * ?rows \<le> ?rows" by simp
    then show ?thesis by (cases "?rows = 0") simp_all
  qed
  with len show ?thesis by simp
qed

theorem make_table_returns_only_on_columns_witness:
  "\<exists>t. make_table [column21] = Inr t \<and> length t = 2 \<and> RasterXSize column21 \<le> 1"
proof -
  have "\<exists>t. make_table [column21] = Inr t"
    by (simp add: table_defs column21_def)
  then obtain t where t: "make_table [column21] = Inr t" ..
  have size: "RasterXSize column21 = 1" "RasterYSize column21 = 2"
    by (simp_all add: column21_def)
  from make_table_returns_only_on_columns [OF t] size
  have "length t = 2" "RasterXSize column21 \<le> 1" by simp_all
  with t show ?thesis by blast
qed

subsection \<open>An unreadable sidecar, a described band\<close>

text \<open>
  X2. Whenever the sidecar cannot be read, \<open>load_r_raster\<close> returns no raster: it raises
  \<^verbatim>\<open>TypeError\<close>, whatever the file name.
\<close>

theorem load_r_raster_unreadable:
  assumes "ini_files world (with_ext filename ''grd'') = Unreadable"
  shows "load_r_raster world filename
           = Inl (TypeError ''exceptions must derive from BaseException'')"
  using assms by (simp add: load_r_raster_def)

theorem load_r_raster_unreadable_witness:
  "load_r_raster example_world ''nowhere/x.gri''
     = Inl (TypeError ''exceptions must derive from BaseException'')"
proof -
  have "ini_files example_world (with_ext ''nowhere/x.gri'' ''grd'') = Unreadable"
    by (simp add: example_world_def with_ext_def extsep_def set_last_def)
  then show ?thesis by (rule load_r_raster_unreadable)
qed

text \<open>
  X3. When the first band of the first raster has a description, its array has a cell and
  the grid has a cell, \<open>make_table\<close> raises \<^verbatim>\<open>UnboundLocalError\<close>: nothing has assigned
  \<^verbatim>\<open>band_name\<close>.
\<close>

theorem make_table_described_band_raises:
  assumes "ds_bands r0 = b # bs" and "band_description b \<noteq> []"
    and "concat (band_array b) \<noteq> []"
    and "0 < RasterXSize r0 * RasterYSize r0"
  shows "make_table (r0 # rs) = Inl UnboundLocalError"
proof -
  obtain v vs where vals: "concat (band_array b) = v # vs"
    using assms(3) by (cases "concat (band_array b)") auto
  obtain topleft_x xres r1 topleft_y r2 yres
    where gt: "GeoTransform r0 = (topleft_x, xres, r1, topleft_y, r2, yres)"
    by (cases "GeoTransform r0") auto
  from assms(4) have "\<not> RasterXSize r0 * RasterYSize r0 \<le> 0" by simp
  with assms(1,2) vals gt show ?thesis
    by (simp add: make_table_def Let_def thenE_def fetch_def)
qed

theorem make_table_described_band_raises_witness:
  "make_table [cell_named, cell_plain] = Inl UnboundLocalError"
proof -
  have "ds_bands cell_named = [plain_band ''temperature'' [[Num 8]]]"
    "band_description (plain_band ''temperature'' [[Num 8]]) \<noteq> []"
    "concat (band_array (plain_band ''temperature'' [[Num 8]])) \<noteq> []"
    "0 < RasterXSize cell_named * RasterYSize cell_named"
    by (simp_all add: cell_named_def plain_band_def)
  then show ?thesis by (rule make_table_described_band_raises)
qed

end
